theory Spec2Isabelle
  imports Main "HOL-Library.Sublist"
begin

section \<open>Python values\<close>

text \<open>
  A Python \<open>str\<close> is a sequence of Unicode code points, so it is modelled as a list of
  code points: slicing (\<open>[:300]\<close>) counts code points, and the en dash of the bad-request
  message is the single code point 8211. \<open>lit\<close> turns an ASCII literal into such a string.
\<close>

type_synonym pystr = "nat list"

definition lit :: "string \<Rightarrow> pystr" where
  "lit s = map of_char s"

text \<open>
  The values the server handles: what \<open>resp.json()\<close> can return, the scalars put into the
  query parameters, and what a tool hands back. No arithmetic or comparison is done on a
  float anywhere in the server, so a float is carried as the text of its \<open>repr\<close>
  (\<open>2.0\<close>, \<open>15.0\<close>, \<open>nan\<close>), which is what \<open>json.dumps\<close> prints for it. A \<open>dict\<close> keeps
  its insertion order and has string keys.
\<close>

datatype pyval =
    PNone
  | PBool bool
  | PInt int
  | PFloat pystr
  | PStr pystr
  | PList "pyval list"
  | PDict "(pystr \<times> pyval) list"

subsection \<open>Built-ins used by the server\<close>

text \<open>\<open>str(i)\<close> for an integer: decimal digits, with a minus sign when negative.\<close>

fun digits :: "nat \<Rightarrow> pystr" where
  "digits n = (if n < 10 then [48 + n] else digits (n div 10) @ [48 + n mod 10])"

definition str_int :: "int \<Rightarrow> pystr" where
  "str_int i = (if i < 0 then 45 # digits (nat (- i)) else digits (nat i))"

text \<open>\<open>str.isspace\<close> on one code point, and \<open>str.strip()\<close> with no argument.\<close>

definition isspace :: "nat \<Rightarrow> bool" where
  "isspace c =
     ((9 \<le> c \<and> c \<le> 13) \<or> (28 \<le> c \<and> c \<le> 32) \<or> c = 133 \<or> c = 160 \<or> c = 5760
      \<or> (8192 \<le> c \<and> c \<le> 8202) \<or> c = 8232 \<or> c = 8233 \<or> c = 8239 \<or> c = 8287
      \<or> c = 12288)"

definition strip :: "pystr \<Rightarrow> pystr" where
  "strip s = rev (dropWhile isspace (rev (dropWhile isspace s)))"

text \<open>The substring test \<open>sub in s\<close>.\<close>

fun py_in :: "pystr \<Rightarrow> pystr \<Rightarrow> bool" where
  "py_in sub [] = (sub = [])"
| "py_in sub (x # xs) = (prefix sub (x # xs) \<or> py_in sub xs)"

text \<open>
  \<open>x or d\<close> for an \<open>Optional[str]\<close>: \<open>None\<close> and the empty string are falsy. \<open>truthy\<close>
  is the test of \<open>if x:\<close> on the same type.
\<close>

definition py_or :: "pystr option \<Rightarrow> pystr \<Rightarrow> pystr" where
  "py_or x d = (case x of None \<Rightarrow> d | Some s \<Rightarrow> if s = [] then d else s)"

definition truthy :: "pystr option \<Rightarrow> bool" where
  "truthy x = (case x of None \<Rightarrow> False | Some s \<Rightarrow> s \<noteq> [])"

text \<open>\<open>isinstance(data, (dict, list))\<close>.\<close>

fun isinstance_dict_list :: "pyval \<Rightarrow> bool" where
  "isinstance_dict_list (PDict kvs) = True"
| "isinstance_dict_list (PList xs) = True"
| "isinstance_dict_list v = False"

subsection \<open>Exceptions\<close>

text \<open>
  The exceptions a tool can meet, split the way \<open>_handle_error\<close> and \<open>except Exception\<close>
  tell them apart. \<open>HTTPStatusError\<close> carries the two fields of \<open>e.response\<close> that the
  handler reads, the status code and the body text. \<open>TimeoutException\<close> stands for every
  instance of \<open>httpx.TimeoutException\<close> (connect, read, write and pool timeouts), and
  \<open>OtherException\<close> for every other instance of \<open>Exception\<close> (a decode error, a
  connection error, \<open>RecursionError\<close>). \<open>BaseException\<close> stands for what is raised
  outside the \<open>Exception\<close> hierarchy: \<open>asyncio.CancelledError\<close> at an \<open>await\<close>,
  \<open>KeyboardInterrupt\<close>, \<open>SystemExit\<close>. The last three carry \<open>type(e).__name__\<close> and
  \<open>str(e)\<close>.
\<close>

datatype exn =
    HTTPStatusError int pystr
  | TimeoutException pystr pystr
  | OtherException pystr pystr
  | BaseException pystr pystr

text \<open>\<open>isinstance(e, Exception)\<close>, the test of \<open>except Exception\<close>.\<close>

fun isinstance_Exception :: "exn \<Rightarrow> bool" where
  "isinstance_Exception (BaseException name msg) = False"
| "isinstance_Exception e = True"

subsection \<open>\<open>json.dumps(data, indent=2)\<close>\<close>

text \<open>
  The standard library's encoder with its defaults (\<open>ensure_ascii=True\<close>,
  \<open>allow_nan=True\<close>) and an indent: item separator \<open>,\<close> and key separator \<open>: \<close>.
  Every character outside the printable ASCII range, the quote and the backslash are
  escaped; a code point above the basic plane becomes a surrogate pair.
\<close>

definition hex_digit :: "nat \<Rightarrow> nat" where
  "hex_digit d = (if d < 10 then 48 + d else 87 + d)"

definition u_escape :: "nat \<Rightarrow> pystr" where
  "u_escape n = [92, 117, hex_digit (n div 4096 mod 16), hex_digit (n div 256 mod 16),
                 hex_digit (n div 16 mod 16), hex_digit (n mod 16)]"

definition escape_char :: "nat \<Rightarrow> pystr" where
  "escape_char c =
     (if c = 92 then [92, 92]
      else if c = 34 then [92, 34]
      else if c = 8 then [92, 98]
      else if c = 12 then [92, 102]
      else if c = 10 then [92, 110]
      else if c = 13 then [92, 114]
      else if c = 9 then [92, 116]
      else if 32 \<le> c \<and> c \<le> 126 then [c]
      else if c < 65536 then u_escape c
      else u_escape (55296 + (c - 65536) div 1024 mod 1024)
           @ u_escape (56320 + (c - 65536) mod 1024))"

definition escape_ascii :: "pystr \<Rightarrow> pystr" where
  "escape_ascii s = concat (map escape_char s)"

definition encode_basestring_ascii :: "pystr \<Rightarrow> pystr" where
  "encode_basestring_ascii s = [34] @ escape_ascii s @ [34]"

fun join :: "pystr \<Rightarrow> pystr list \<Rightarrow> pystr" where
  "join sep [] = []"
| "join sep [x] = x"
| "join sep (x # y # ys) = x @ sep @ join sep (y # ys)"

definition newline_indent :: "nat \<Rightarrow> nat \<Rightarrow> pystr" where
  "newline_indent indent level = 10 # replicate (indent * level) 32"

fun iterencode :: "nat \<Rightarrow> nat \<Rightarrow> pyval \<Rightarrow> pystr" where
  "iterencode indent level PNone = lit ''null''"
| "iterencode indent level (PBool b) = (if b then lit ''true'' else lit ''false'')"
| "iterencode indent level (PInt i) = str_int i"
| "iterencode indent level (PFloat r) =
     (if r = lit ''nan'' then lit ''NaN''
      else if r = lit ''inf'' then lit ''Infinity''
      else if r = lit ''-inf'' then lit ''-Infinity''
      else r)"
| "iterencode indent level (PStr s) = encode_basestring_ascii s"
| "iterencode indent level (PList xs) =
     (if xs = [] then lit ''[]''
      else lit ''['' @ newline_indent indent (level + 1)
           @ join (lit '','' @ newline_indent indent (level + 1))
                  (map (iterencode indent (level + 1)) xs)
           @ newline_indent indent level @ lit '']'')"
| "iterencode indent level (PDict kvs) =
     (if kvs = [] then lit ''{}''
      else lit ''{'' @ newline_indent indent (level + 1)
           @ join (lit '','' @ newline_indent indent (level + 1))
                  (map (\<lambda>kv. encode_basestring_ascii (fst kv) @ lit '': ''
                              @ iterencode indent (level + 1) (snd kv)) kvs)
           @ newline_indent indent level @ lit ''}'')"

text \<open>
  With an indent the encoder is the recursive Python one, and every level of nested
  \<open>list\<close> or \<open>dict\<close> takes interpreter stack. \<open>stack_room\<close> is the number of levels below the
  outermost container that the interpreter has room for when the tool calls
  \<open>json.dumps\<close>; a value nested deeper makes the call raise \<open>RecursionError\<close>, whose text
  is the interpreter's.
\<close>

record interpreter =
  stack_room :: nat
  recursion_msg :: pystr

fun nesting :: "pyval \<Rightarrow> nat" where
  "nesting (PList xs) = Suc (foldr max (map nesting xs) 0)"
| "nesting (PDict kvs) = Suc (foldr max (map (\<lambda>kv. nesting (snd kv)) kvs) 0)"
| "nesting v = 0"

definition json_dumps :: "interpreter \<Rightarrow> pyval \<Rightarrow> nat \<Rightarrow> exn + pystr" where
  "json_dumps py data indent =
     (if nesting data \<le> Suc (stack_room py) then Inr (iterencode indent 0 data)
      else Inl (OtherException (lit ''RecursionError'') (recursion_msg py)))"

section \<open>Configuration\<close>

definition AWC_BASE :: pystr where
  "AWC_BASE = lit ''https://aviationweather.gov/api/data''"

definition USER_AGENT :: pystr where
  "USER_AGENT = lit ''aviation-weather-mcp/1.0 (Claude Chat Connector)''"

definition REQUEST_TIMEOUT :: pystr where
  "REQUEST_TIMEOUT = lit ''15.0''"

section \<open>The HTTP transport\<close>

text \<open>
  What \<open>client.get\<close> is called with, and the part of an \<open>httpx.Response\<close> the server
  looks at. Header names are looked up in lower case. \<open>resp_json\<close> is the outcome of the
  call \<open>resp.json()\<close> on this response: the parsed value, or the exception the parser
  raises.
\<close>

record request =
  req_url :: pystr
  req_params :: "pystr \<rightharpoonup> pyval"
  req_headers :: "pystr \<rightharpoonup> pystr"
  req_timeout :: pystr

record response =
  status_code :: int
  headers :: "pystr \<rightharpoonup> pystr"
  resp_text :: pystr
  resp_json :: "exn + pyval"

text \<open>
  The network is a parameter: the outcome of \<open>await client.get(...)\<close> for a request is
  either an exception (a timeout after \<open>REQUEST_TIMEOUT\<close> seconds, a connection error,
  the cancellation of the task while it waits) or a response.
\<close>

type_synonym transport = "request \<Rightarrow> exn + response"

text \<open>\<open>headers.get(key, default)\<close>.\<close>

definition headers_get :: "(pystr \<rightharpoonup> pystr) \<Rightarrow> pystr \<Rightarrow> pystr \<Rightarrow> pystr" where
  "headers_get h key dflt = (case h key of None \<Rightarrow> dflt | Some v \<Rightarrow> v)"

text \<open>
  \<open>Response.raise_for_status()\<close> of httpx: returns on a 2xx status and raises
  \<open>HTTPStatusError\<close> on every other one.
\<close>

definition raise_for_status :: "response \<Rightarrow> exn + response" where
  "raise_for_status resp =
     (if 200 \<le> status_code resp \<and> status_code resp \<le> 299 then Inr resp
      else Inl (HTTPStatusError (status_code resp) (resp_text resp)))"

section \<open>Shared HTTP helper\<close>

text \<open>The request \<open>_awc_get\<close> sends: URL, query parameters, the fixed header, the timeout.\<close>

definition awc_request :: "pystr \<Rightarrow> (pystr \<rightharpoonup> pyval) \<Rightarrow> request" where
  "awc_request endpoint params =
     \<lparr>req_url = AWC_BASE @ lit ''/'' @ endpoint,
      req_params = params,
      req_headers = [lit ''User-Agent'' \<mapsto> USER_AGENT],
      req_timeout = REQUEST_TIMEOUT\<rparr>"

text \<open>\<open>_awc_get\<close>: one GET, then the status and content-type cases in the source's order.\<close>

definition awc_get :: "transport \<Rightarrow> pystr \<Rightarrow> (pystr \<rightharpoonup> pyval) \<Rightarrow> exn + pyval" where
  "awc_get net endpoint params =
     (case net (awc_request endpoint params) of
        Inl e \<Rightarrow> Inl e
      | Inr resp \<Rightarrow>
          if status_code resp = 204 then
            Inr (PDict [(lit ''message'', PStr (lit ''No data available for this request.''))])
          else if status_code resp = 400 then
            Inr (PDict [(lit ''error'',
                   PStr (lit ''Bad request '' @ [8211] @ lit '' check your parameters. Details: ''
                         @ strip (resp_text resp)))])
          else
            (case raise_for_status resp of
               Inl e \<Rightarrow> Inl e
             | Inr _ \<Rightarrow>
                 if py_in (lit ''json'') (headers_get (headers resp) (lit ''content-type'') [])
                 then resp_json resp
                 else Inr (PStr (strip (resp_text resp)))))"

text \<open>\<open>_handle_error\<close>.\<close>

fun handle_error :: "exn \<Rightarrow> pystr" where
  "handle_error (HTTPStatusError code body) =
     lit ''Error: API returned status '' @ str_int code @ lit ''. '' @ take 300 body"
| "handle_error (TimeoutException name msg) =
     lit ''Error: Request to aviationweather.gov timed out. Try again.''"
| "handle_error (OtherException name msg) =
     lit ''Error: '' @ name @ lit '': '' @ msg"
| "handle_error (BaseException name msg) =
     lit ''Error: '' @ name @ lit '': '' @ msg"

section \<open>Tools\<close>

text \<open>
  Every tool has the same body: assemble the parameters, call \<open>_awc_get\<close>, serialise a
  \<open>dict\<close> or \<open>list\<close> and pass anything else through, all inside
  \<open>try ... except Exception as e: return _handle_error(e)\<close>. An exception that is not
  an \<open>Exception\<close> passes the handler and leaves the tool. The parameter assembly of each
  tool is a function of its own, so that the mapping handed to \<open>_awc_get\<close> can be looked
  at.
\<close>

text \<open>\<open>return json.dumps(data, indent=2) if isinstance(data, (dict, list)) else data\<close>.\<close>

definition return_dumps :: "interpreter \<Rightarrow> pyval \<Rightarrow> exn + pyval" where
  "return_dumps py data =
     (if isinstance_dict_list data then
        (case json_dumps py data 2 of Inl e \<Rightarrow> Inl e | Inr s \<Rightarrow> Inr (PStr s))
      else Inr data)"

text \<open>The two statements that follow the parameter assembly in every \<open>try\<close> block.\<close>

definition try_block ::
  "transport \<Rightarrow> interpreter \<Rightarrow> pystr \<Rightarrow> (pystr \<rightharpoonup> pyval) \<Rightarrow> exn + pyval" where
  "try_block net py endpoint params =
     (case awc_get net endpoint params of
        Inl e \<Rightarrow> Inl e
      | Inr data \<Rightarrow> return_dumps py data)"

text \<open>\<open>except Exception as e: return _handle_error(e)\<close> around a block.\<close>

definition except_Exception :: "exn + pyval \<Rightarrow> exn + pyval" where
  "except_Exception block =
     (case block of
        Inr v \<Rightarrow> Inr v
      | Inl e \<Rightarrow> if isinstance_Exception e then Inr (PStr (handle_error e)) else Inl e)"

definition get_metar_params ::
  "pystr \<Rightarrow> pystr option \<Rightarrow> pystr option \<Rightarrow> (pystr \<rightharpoonup> pyval)" where
  "get_metar_params ids hours format =
     (let params = [lit ''ids'' \<mapsto> PStr ids, lit ''format'' \<mapsto> PStr (py_or format (lit ''json''))]
      in case hours of
           None \<Rightarrow> params
         | Some h \<Rightarrow> params(lit ''hours'' \<mapsto> PFloat h))"

definition get_metar ::
  "transport \<Rightarrow> interpreter \<Rightarrow> pystr \<Rightarrow> pystr option \<Rightarrow> pystr option \<Rightarrow> exn + pyval" where
  "get_metar net py ids hours format =
     except_Exception (try_block net py (lit ''metar'') (get_metar_params ids hours format))"

definition get_taf_params :: "pystr \<Rightarrow> pystr option \<Rightarrow> (pystr \<rightharpoonup> pyval)" where
  "get_taf_params ids format =
     [lit ''ids'' \<mapsto> PStr ids, lit ''format'' \<mapsto> PStr (py_or format (lit ''json''))]"

definition get_taf ::
  "transport \<Rightarrow> interpreter \<Rightarrow> pystr \<Rightarrow> pystr option \<Rightarrow> exn + pyval" where
  "get_taf net py ids format =
     except_Exception (try_block net py (lit ''taf'') (get_taf_params ids format))"

definition get_pireps_params ::
  "pystr option \<Rightarrow> int option \<Rightarrow> pystr option \<Rightarrow> pystr option \<Rightarrow> (pystr \<rightharpoonup> pyval)" where
  "get_pireps_params id' distance age format =
     (let params = [lit ''format'' \<mapsto> PStr (py_or format (lit ''json''))];
          params = (case id' of
                      Some s \<Rightarrow> if truthy id' then params(lit ''id'' \<mapsto> PStr s) else params
                    | None \<Rightarrow> params);
          params = (case distance of
                      Some d \<Rightarrow> params(lit ''distance'' \<mapsto> PInt d)
                    | None \<Rightarrow> params)
      in case age of
           Some a \<Rightarrow> params(lit ''age'' \<mapsto> PFloat a)
         | None \<Rightarrow> params)"

definition get_pireps ::
  "transport \<Rightarrow> interpreter \<Rightarrow> pystr option \<Rightarrow> int option \<Rightarrow> pystr option \<Rightarrow> pystr option \<Rightarrow> exn + pyval" where
  "get_pireps net py id' distance age format =
     except_Exception (try_block net py (lit ''pirep'') (get_pireps_params id' distance age format))"

definition get_airsigmet_params :: "pystr option \<Rightarrow> pystr option \<Rightarrow> (pystr \<rightharpoonup> pyval)" where
  "get_airsigmet_params format hazard =
     (let params = [lit ''format'' \<mapsto> PStr (py_or format (lit ''json''))]
      in case hazard of
           Some s \<Rightarrow> if truthy hazard then params(lit ''hazard'' \<mapsto> PStr s) else params
         | None \<Rightarrow> params)"

definition get_airsigmet ::
  "transport \<Rightarrow> interpreter \<Rightarrow> pystr option \<Rightarrow> pystr option \<Rightarrow> exn + pyval" where
  "get_airsigmet net py format hazard =
     except_Exception (try_block net py (lit ''airsigmet'') (get_airsigmet_params format hazard))"

definition get_station_info_params :: "pystr \<Rightarrow> pystr option \<Rightarrow> (pystr \<rightharpoonup> pyval)" where
  "get_station_info_params ids format =
     [lit ''ids'' \<mapsto> PStr ids, lit ''format'' \<mapsto> PStr (py_or format (lit ''json''))]"

definition get_station_info ::
  "transport \<Rightarrow> interpreter \<Rightarrow> pystr \<Rightarrow> pystr option \<Rightarrow> exn + pyval" where
  "get_station_info net py ids format =
     except_Exception (try_block net py (lit ''stationinfo'') (get_station_info_params ids format))"

subsection \<open>Calling a tool\<close>

text \<open>
  A caller either leaves an argument out, and the default of the signature is used, or
  gives a value; for an \<open>Optional\<close> parameter the value given may be \<open>None\<close>. The required
  \<open>ids\<close> is always given. A call names one of the five registered tools.
\<close>

datatype 'a arg = Omitted | Given 'a

fun with_default :: "'a \<Rightarrow> 'a arg \<Rightarrow> 'a" where
  "with_default d Omitted = d"
| "with_default d (Given v) = v"

datatype tool_call =
    Call_get_metar pystr "pystr option arg" "pystr option arg"
  | Call_get_taf pystr "pystr option arg"
  | Call_get_pireps "pystr option arg" "int option arg" "pystr option arg" "pystr option arg"
  | Call_get_airsigmet "pystr option arg" "pystr option arg"
  | Call_get_station_info pystr "pystr option arg"

fun call_tool :: "transport \<Rightarrow> interpreter \<Rightarrow> tool_call \<Rightarrow> exn + pyval" where
  "call_tool net py (Call_get_metar ids hours format) =
     get_metar net py ids (with_default None hours) (with_default (Some (lit ''json'')) format)"
| "call_tool net py (Call_get_taf ids format) =
     get_taf net py ids (with_default (Some (lit ''json'')) format)"
| "call_tool net py (Call_get_pireps id' distance age format) =
     get_pireps net py (with_default None id') (with_default (Some 200) distance)
       (with_default (Some (lit ''2.0'')) age) (with_default (Some (lit ''json'')) format)"
| "call_tool net py (Call_get_airsigmet format hazard) =
     get_airsigmet net py (with_default (Some (lit ''json'')) format) (with_default None hazard)"
| "call_tool net py (Call_get_station_info ids format) =
     get_station_info net py ids (with_default (Some (lit ''json'')) format)"

text \<open>The endpoint a call goes to, and the parameter mapping it hands to \<open>_awc_get\<close>.\<close>

fun endpoint_of :: "tool_call \<Rightarrow> pystr" where
  "endpoint_of (Call_get_metar ids hours format) = lit ''metar''"
| "endpoint_of (Call_get_taf ids format) = lit ''taf''"
| "endpoint_of (Call_get_pireps id' distance age format) = lit ''pirep''"
| "endpoint_of (Call_get_airsigmet format hazard) = lit ''airsigmet''"
| "endpoint_of (Call_get_station_info ids format) = lit ''stationinfo''"

fun params_of :: "tool_call \<Rightarrow> (pystr \<rightharpoonup> pyval)" where
  "params_of (Call_get_metar ids hours format) =
     get_metar_params ids (with_default None hours) (with_default (Some (lit ''json'')) format)"
| "params_of (Call_get_taf ids format) =
     get_taf_params ids (with_default (Some (lit ''json'')) format)"
| "params_of (Call_get_pireps id' distance age format) =
     get_pireps_params (with_default None id') (with_default (Some 200) distance)
       (with_default (Some (lit ''2.0'')) age) (with_default (Some (lit ''json'')) format)"
| "params_of (Call_get_airsigmet format hazard) =
     get_airsigmet_params (with_default (Some (lit ''json'')) format) (with_default None hazard)"
| "params_of (Call_get_station_info ids format) =
     get_station_info_params ids (with_default (Some (lit ''json'')) format)"

text \<open>The \<open>format\<close> argument of a call, as the caller gave it.\<close>

fun format_arg :: "tool_call \<Rightarrow> pystr option arg" where
  "format_arg (Call_get_metar ids hours format) = format"
| "format_arg (Call_get_taf ids format) = format"
| "format_arg (Call_get_pireps id' distance age format) = format"
| "format_arg (Call_get_airsigmet format hazard) = format"
| "format_arg (Call_get_station_info ids format) = format"

section \<open>Stub transport and sample responses\<close>

text \<open>
  A stub in place of the network: it answers every request with the same outcome. The
  sample responses below are the concrete inputs of the examples.
\<close>

definition fake_transport :: "exn + response \<Rightarrow> transport" where
  "fake_transport outcome req = outcome"

definition no_content_response :: response where
  "no_content_response =
     \<lparr>status_code = 204, headers = Map.empty, resp_text = [],
      resp_json = Inl (OtherException (lit ''JSONDecodeError'')
                    (lit ''Expecting value: line 1 column 1 (char 0)''))\<rparr>"

definition bad_request_response :: response where
  \<open>bad_request_response =
     \<lparr>status_code = 400, headers = [lit ''content-type'' \<mapsto> lit ''text/plain''],
      resp_text = lit '' Invalid "ids" value\<newline>'',
      resp_json = Inl (OtherException (lit ''JSONDecodeError'')
                    (lit ''Expecting value: line 1 column 2 (char 1)''))\<rparr>\<close>

definition server_error_response :: response where
  "server_error_response =
     \<lparr>status_code = 503, headers = [lit ''content-type'' \<mapsto> lit ''text/html''],
      resp_text = replicate 301 120,
      resp_json = Inl (OtherException (lit ''JSONDecodeError'')
                    (lit ''Expecting value: line 1 column 1 (char 0)''))\<rparr>"

definition html_as_json_response :: response where
  "html_as_json_response =
     \<lparr>status_code = 200, headers = [lit ''content-type'' \<mapsto> lit ''application/json''],
      resp_text = lit ''<html>'',
      resp_json = Inl (OtherException (lit ''JSONDecodeError'')
                    (lit ''Expecting value: line 1 column 1 (char 0)''))\<rparr>"

definition raw_text_response :: response where
  "raw_text_response =
     \<lparr>status_code = 200, headers = [lit ''content-type'' \<mapsto> lit ''text/plain''],
      resp_text = lit ''  KTUS 041953Z 12008KT 10SM CLR 31/04 A3001\<newline>'',
      resp_json = Inl (OtherException (lit ''JSONDecodeError'')
                    (lit ''Expecting value: line 1 column 3 (char 2)''))\<rparr>"

definition geojson_response :: response where
  \<open>geojson_response =
     \<lparr>status_code = 200, headers = [lit ''content-type'' \<mapsto> lit ''application/geo+json''],
      resp_text = lit ''{"type": "FeatureCollection", "features": []}\<newline>'',
      resp_json = Inr (PDict [(lit ''type'', PStr (lit ''FeatureCollection'')),
                              (lit ''features'', PList [])])\<rparr>\<close>

text \<open>
  A response whose body is a JSON array nested 1000 deep, an interpreter with room for
  900 levels, and the cancellation of the task while it waits for the response.
\<close>

definition deep_json_response :: response where
  "deep_json_response =
     \<lparr>status_code = 200, headers = [lit ''content-type'' \<mapsto> lit ''application/json''],
      resp_text = replicate 1000 91 @ replicate 1000 93,
      resp_json = Inr (PList [((\<lambda>v. PList [v]) ^^ 998) (PList [])])\<rparr>"

definition sample_interpreter :: interpreter where
  "sample_interpreter =
     \<lparr>stack_room = 900,
      recursion_msg = lit ''maximum recursion depth exceeded while calling a Python object''\<rparr>"

definition cancelled :: exn where
  "cancelled = BaseException (lit ''CancelledError'') []"

section \<open>Basic facts\<close>

lemma call_tool_unfold:
  "call_tool net py c = except_Exception (try_block net py (endpoint_of c) (params_of c))"
  by (cases c)
     (simp_all add: get_metar_def get_taf_def get_pireps_def get_airsigmet_def
        get_station_info_def)

lemma newline_indent_2 [simp]:
  "newline_indent 2 0 = [10]" "newline_indent 2 (Suc 0) = [10, 32, 32]"
  by (simp_all add: newline_indent_def numeral_2_eq_2)

lemma handle_error_prefix: "prefix (lit ''Error:'') (handle_error e)"
  by (cases e) (simp_all add: lit_def)

lemma nesting_funpow: "nesting (((\<lambda>v. PList [v]) ^^ n) v) = n + nesting v"
  by (induction n) simp_all

lemma escape_ascii_append: "escape_ascii (a @ b) = escape_ascii a @ escape_ascii b"
  by (simp add: escape_ascii_def)

lemma dumps_message:
  \<open>json_dumps py (PDict [(lit ''message'', PStr (lit ''No data available for this request.''))]) 2
     = Inr (lit ''{\<newline>  "message": "No data available for this request."\<newline>}'')\<close>
  by (simp add: json_dumps_def lit_def encode_basestring_ascii_def escape_ascii_def
        escape_char_def)

lemma escape_bad_request:
  \<open>escape_ascii (lit ''Bad request '' @ [8211] @ lit '' check your parameters. Details: '')
     = lit ''Bad request '' @ [92] @ lit ''u2013 check your parameters. Details: ''\<close>
  by (simp add: escape_ascii_def lit_def escape_char_def u_escape_def hex_digit_def)

lemma dumps_error:
  \<open>json_dumps py (PDict [(lit ''error'',
       PStr (lit ''Bad request '' @ [8211] @ lit '' check your parameters. Details: '' @ s))]) 2
     = Inr (lit ''{\<newline>  "error": "Bad request '' @ [92]
            @ lit ''u2013 check your parameters. Details: '' @ escape_ascii s
            @ lit ''"\<newline>}'')\<close>
proof -
  have "escape_ascii (lit ''Bad request '' @ [8211] @ lit '' check your parameters. Details: '' @ s)
     = lit ''Bad request '' @ [92] @ lit ''u2013 check your parameters. Details: '' @ escape_ascii s"
    using escape_bad_request escape_ascii_append
    by (metis append.assoc)
  moreover have "escape_ascii (lit ''error'') = lit ''error''"
    by (simp add: escape_ascii_def lit_def escape_char_def)
  ultimately show ?thesis
    by (simp add: json_dumps_def encode_basestring_ascii_def lit_def)
qed

lemma lit_eq_iff [simp]: "lit a = lit b \<longleftrightarrow> a = b"
proof -
  have "inj (of_char :: char \<Rightarrow> nat)"
    by (rule injI) simp
  then show ?thesis
    by (simp add: lit_def inj_map_eq_map)
qed

lemma lit_eq_Nil_iff [simp]: "lit a = [] \<longleftrightarrow> a = []" "[] = lit a \<longleftrightarrow> a = []"
  by (auto simp add: lit_def)

lemma params_of_format:
  "params_of c (lit ''format'')
     = Some (PStr (py_or (with_default (Some (lit ''json'')) (format_arg c)) (lit ''json'')))"
  by (cases c)
     (auto simp add: get_metar_params_def get_taf_params_def get_pireps_params_def
        get_airsigmet_params_def get_station_info_params_def Let_def
        split: option.splits)

section \<open>Error handling\<close>

text \<open>
  C1 as stated does not hold: when the task is cancelled while \<open>get_metar\<close> waits for the
  response, \<open>asyncio.CancelledError\<close> is raised inside the tool, is not an \<open>Exception\<close>,
  passes \<open>except Exception\<close> and reaches the caller; no string is returned.
\<close>

theorem cancellation_propagates:
  "call_tool (fake_transport (Inl cancelled)) sample_interpreter
       (Call_get_metar (lit ''KTUS'') Omitted Omitted)
     = Inl cancelled"
  by (simp add: get_metar_def except_Exception_def try_block_def awc_get_def
        fake_transport_def cancelled_def)

text \<open>
  C1, amended. Whatever exception leaves the \<open>try\<close> block of a tool, from the transport
  call, the status check, the decoding of the body or the serialisation of the result:
  when it is an instance of \<open>Exception\<close> the tool returns normally with the string that
  \<open>_handle_error\<close> makes of it, and that string begins with \<open>Error:\<close>; when it is not (a
  cancellation, an interrupt) it propagates to the caller.
\<close>

theorem fault_containment:
  "try_block net py (endpoint_of c) (params_of c) = Inl e \<Longrightarrow>
     call_tool net py c
       = (if isinstance_Exception e then Inr (PStr (handle_error e)) else Inl e)
     \<and> prefix (lit ''Error:'') (handle_error e)"
  by (simp add: call_tool_unfold except_Exception_def handle_error_prefix)

theorem fault_containment_witness:
  "try_block (fake_transport (Inr html_as_json_response)) sample_interpreter
       (endpoint_of (Call_get_taf (lit ''KTUS'') Omitted))
       (params_of (Call_get_taf (lit ''KTUS'') Omitted))
     = Inl (OtherException (lit ''JSONDecodeError'')
              (lit ''Expecting value: line 1 column 1 (char 0)''))
   \<and> call_tool (fake_transport (Inr html_as_json_response)) sample_interpreter
        (Call_get_taf (lit ''KTUS'') Omitted)
     = Inr (PStr (lit ''Error: JSONDecodeError: Expecting value: line 1 column 1 (char 0)''))
   \<and> try_block (fake_transport (Inr deep_json_response)) sample_interpreter
       (endpoint_of (Call_get_taf (lit ''KTUS'') Omitted))
       (params_of (Call_get_taf (lit ''KTUS'') Omitted))
     = Inl (OtherException (lit ''RecursionError'')
              (lit ''maximum recursion depth exceeded while calling a Python object''))
   \<and> call_tool (fake_transport (Inr deep_json_response)) sample_interpreter
        (Call_get_taf (lit ''KTUS'') Omitted)
     = Inr (PStr (lit ''Error: RecursionError: maximum recursion depth exceeded while calling a Python object''))"
proof -
  have h1: "try_block (fake_transport (Inr html_as_json_response)) sample_interpreter
       (endpoint_of (Call_get_taf (lit ''KTUS'') Omitted))
       (params_of (Call_get_taf (lit ''KTUS'') Omitted))
     = Inl (OtherException (lit ''JSONDecodeError'')
              (lit ''Expecting value: line 1 column 1 (char 0)''))"
    by (simp add: try_block_def awc_get_def fake_transport_def html_as_json_response_def
          raise_for_status_def headers_get_def lit_def)
  have n: "\<not> nesting (PList [((\<lambda>v. PList [v]) ^^ 998) (PList [])])
              \<le> Suc (stack_room sample_interpreter)"
    by (simp add: nesting_funpow sample_interpreter_def)
  have a: "awc_get (fake_transport (Inr deep_json_response))
       (endpoint_of (Call_get_taf (lit ''KTUS'') Omitted))
       (params_of (Call_get_taf (lit ''KTUS'') Omitted))
     = Inr (PList [((\<lambda>v. PList [v]) ^^ 998) (PList [])])"
    by (simp add: awc_get_def fake_transport_def deep_json_response_def
          raise_for_status_def headers_get_def lit_def)
  have h2: "try_block (fake_transport (Inr deep_json_response)) sample_interpreter
       (endpoint_of (Call_get_taf (lit ''KTUS'') Omitted))
       (params_of (Call_get_taf (lit ''KTUS'') Omitted))
     = Inl (OtherException (lit ''RecursionError'')
              (lit ''maximum recursion depth exceeded while calling a Python object''))"
    unfolding try_block_def a
    using n by (simp add: return_dumps_def json_dumps_def sample_interpreter_def)
  have r1: "call_tool (fake_transport (Inr html_as_json_response)) sample_interpreter
        (Call_get_taf (lit ''KTUS'') Omitted)
     = Inr (PStr (lit ''Error: JSONDecodeError: Expecting value: line 1 column 1 (char 0)''))"
    using fault_containment [OF h1] by (simp add: lit_def)
  have r2: "call_tool (fake_transport (Inr deep_json_response)) sample_interpreter
        (Call_get_taf (lit ''KTUS'') Omitted)
     = Inr (PStr (lit ''Error: RecursionError: maximum recursion depth exceeded while calling a Python object''))"
    using fault_containment [OF h2] by (simp add: lit_def)
  from h1 r1 h2 r2 show ?thesis
    by blast
qed

text \<open>
  C2. A response with status 400 makes every tool return normally with the serialisation
  of \<open>{"error": "Bad request \<dots> Details: <trimmed body>"}\<close>: a string that opens with a
  brace, in which the trimmed body stands JSON-escaped after the fixed message, and that
  does not begin with \<open>Error:\<close>.
\<close>

theorem bad_request_as_data:
  \<open>net (awc_request (endpoint_of c) (params_of c)) = Inr resp \<Longrightarrow> status_code resp = 400 \<Longrightarrow>
     json_dumps py (PDict [(lit ''error'',
         PStr (lit ''Bad request '' @ [8211] @ lit '' check your parameters. Details: ''
               @ strip (resp_text resp)))]) 2
       = Inr (lit ''{\<newline>  "error": "Bad request '' @ [92]
              @ lit ''u2013 check your parameters. Details: ''
              @ escape_ascii (strip (resp_text resp)) @ lit ''"\<newline>}'')
     \<and> call_tool net py c =
       Inr (PStr (lit ''{\<newline>  "error": "Bad request '' @ [92]
                  @ lit ''u2013 check your parameters. Details: ''
                  @ escape_ascii (strip (resp_text resp)) @ lit ''"\<newline>}''))
     \<and> \<not> prefix (lit ''Error:'')
           (lit ''{\<newline>  "error": "Bad request '' @ [92]
             @ lit ''u2013 check your parameters. Details: ''
             @ escape_ascii (strip (resp_text resp)) @ lit ''"\<newline>}'')\<close>
proof (intro conjI)
  assume a: "net (awc_request (endpoint_of c) (params_of c)) = Inr resp" "status_code resp = 400"
  show \<open>json_dumps py (PDict [(lit ''error'',
         PStr (lit ''Bad request '' @ [8211] @ lit '' check your parameters. Details: ''
               @ strip (resp_text resp)))]) 2
       = Inr (lit ''{\<newline>  "error": "Bad request '' @ [92]
              @ lit ''u2013 check your parameters. Details: ''
              @ escape_ascii (strip (resp_text resp)) @ lit ''"\<newline>}'')\<close>
    by (rule dumps_error)
  from a have t: "try_block net py (endpoint_of c) (params_of c)
      = (case json_dumps py (PDict [(lit ''error'',
           PStr (lit ''Bad request '' @ [8211] @ lit '' check your parameters. Details: ''
               @ strip (resp_text resp)))]) 2 of Inl e \<Rightarrow> Inl e | Inr s \<Rightarrow> Inr (PStr s))"
    by (simp add: try_block_def awc_get_def return_dumps_def)
  show \<open>call_tool net py c =
       Inr (PStr (lit ''{\<newline>  "error": "Bad request '' @ [92]
                  @ lit ''u2013 check your parameters. Details: ''
                  @ escape_ascii (strip (resp_text resp)) @ lit ''"\<newline>}''))\<close>
    unfolding call_tool_unfold t dumps_error
    by (simp add: except_Exception_def)
  show \<open>\<not> prefix (lit ''Error:'')
           (lit ''{\<newline>  "error": "Bad request '' @ [92]
             @ lit ''u2013 check your parameters. Details: ''
             @ escape_ascii (strip (resp_text resp)) @ lit ''"\<newline>}'')\<close>
    by (simp add: lit_def)
qed

theorem bad_request_as_data_witness:
  \<open>fake_transport (Inr bad_request_response)
       (awc_request (endpoint_of (Call_get_metar (lit ''KTUS'') Omitted Omitted))
          (params_of (Call_get_metar (lit ''KTUS'') Omitted Omitted)))
     = Inr bad_request_response
   \<and> status_code bad_request_response = 400
   \<and> call_tool (fake_transport (Inr bad_request_response)) sample_interpreter
        (Call_get_metar (lit ''KTUS'') Omitted Omitted)
     = Inr (PStr (lit ''{\<newline>  "error": "Bad request '' @ [92]
             @ lit ''u2013 check your parameters. Details: Invalid '' @ [92] @ lit ''"ids''
             @ [92] @ lit ''" value"\<newline>}''))\<close>
proof -
  have h1: "fake_transport (Inr bad_request_response)
       (awc_request (endpoint_of (Call_get_metar (lit ''KTUS'') Omitted Omitted))
          (params_of (Call_get_metar (lit ''KTUS'') Omitted Omitted)))
     = Inr bad_request_response"
    by (simp add: fake_transport_def)
  have h2: "status_code bad_request_response = 400"
    by (simp add: bad_request_response_def)
  have e: \<open>escape_ascii (strip (resp_text bad_request_response))
     = lit ''Invalid '' @ [92] @ lit ''"ids'' @ [92] @ lit ''" value''\<close>
    by (simp add: bad_request_response_def strip_def isspace_def escape_ascii_def
          escape_char_def lit_def)
  have r: \<open>call_tool (fake_transport (Inr bad_request_response)) sample_interpreter
        (Call_get_metar (lit ''KTUS'') Omitted Omitted)
     = Inr (PStr (lit ''{\<newline>  "error": "Bad request '' @ [92]
             @ lit ''u2013 check your parameters. Details: ''
             @ escape_ascii (strip (resp_text bad_request_response)) @ lit ''"\<newline>}''))\<close>
    using bad_request_as_data [of "fake_transport (Inr bad_request_response)"
      "Call_get_metar (lit ''KTUS'') Omitted Omitted" bad_request_response
      sample_interpreter, OF h1 h2]
    by blast
  from h1 h2 r show ?thesis
    by (simp add: e lit_def)
qed

text \<open>
  C3. A response with status 204 makes every tool return normally with the serialisation
  of \<open>{"message": "No data available for this request."}\<close>, which is the three-line text
  spelled out below and not an \<open>Error:\<close> string.
\<close>

theorem no_data_literal:
  \<open>net (awc_request (endpoint_of c) (params_of c)) = Inr resp \<Longrightarrow> status_code resp = 204 \<Longrightarrow>
     json_dumps py
         (PDict [(lit ''message'', PStr (lit ''No data available for this request.''))]) 2
       = Inr (lit ''{\<newline>  "message": "No data available for this request."\<newline>}'')
     \<and> call_tool net py c =
       Inr (PStr (lit ''{\<newline>  "message": "No data available for this request."\<newline>}''))
     \<and> \<not> prefix (lit ''Error:'')
           (lit ''{\<newline>  "message": "No data available for this request."\<newline>}'')\<close>
proof (intro conjI)
  assume a: "net (awc_request (endpoint_of c) (params_of c)) = Inr resp" "status_code resp = 204"
  show \<open>json_dumps py
         (PDict [(lit ''message'', PStr (lit ''No data available for this request.''))]) 2
       = Inr (lit ''{\<newline>  "message": "No data available for this request."\<newline>}'')\<close>
    by (rule dumps_message)
  from a have t: "try_block net py (endpoint_of c) (params_of c)
      = (case json_dumps py
           (PDict [(lit ''message'', PStr (lit ''No data available for this request.''))]) 2
         of Inl e \<Rightarrow> Inl e | Inr s \<Rightarrow> Inr (PStr s))"
    by (simp add: try_block_def awc_get_def return_dumps_def)
  show \<open>call_tool net py c =
       Inr (PStr (lit ''{\<newline>  "message": "No data available for this request."\<newline>}''))\<close>
    unfolding call_tool_unfold t dumps_message
    by (simp add: except_Exception_def)
  show \<open>\<not> prefix (lit ''Error:'')
           (lit ''{\<newline>  "message": "No data available for this request."\<newline>}'')\<close>
    by (simp add: lit_def)
qed

theorem no_data_literal_witness:
  \<open>fake_transport (Inr no_content_response)
       (awc_request (endpoint_of (Call_get_airsigmet Omitted Omitted))
          (params_of (Call_get_airsigmet Omitted Omitted)))
     = Inr no_content_response
   \<and> status_code no_content_response = 204
   \<and> call_tool (fake_transport (Inr no_content_response)) sample_interpreter
        (Call_get_airsigmet Omitted Omitted)
     = Inr (PStr (lit ''{\<newline>  "message": "No data available for this request."\<newline>}''))\<close>
proof -
  have h1: "fake_transport (Inr no_content_response)
       (awc_request (endpoint_of (Call_get_airsigmet Omitted Omitted))
          (params_of (Call_get_airsigmet Omitted Omitted)))
     = Inr no_content_response"
    by (simp add: fake_transport_def)
  have h2: "status_code no_content_response = 204"
    by (simp add: no_content_response_def)
  from no_data_literal [of "fake_transport (Inr no_content_response)"
      "Call_get_airsigmet Omitted Omitted" no_content_response sample_interpreter,
      OF h1 h2] h1 h2
  show ?thesis
    by blast
qed

text \<open>
  C4. When the transport call ends in a timeout exception, every tool returns the same
  fixed sentence, whatever the tool and its arguments.
\<close>

theorem timeout_literal:
  "net (awc_request (endpoint_of c) (params_of c)) = Inl (TimeoutException name msg) \<Longrightarrow>
     call_tool net py c =
       Inr (PStr (lit ''Error: Request to aviationweather.gov timed out. Try again.''))"
  by (simp add: call_tool_unfold except_Exception_def try_block_def awc_get_def)

theorem timeout_literal_witness:
  "fake_transport (Inl (TimeoutException (lit ''ReadTimeout'') []))
       (awc_request (endpoint_of (Call_get_pireps (Given (Some (lit ''KORD''))) Omitted Omitted Omitted))
          (params_of (Call_get_pireps (Given (Some (lit ''KORD''))) Omitted Omitted Omitted)))
     = Inl (TimeoutException (lit ''ReadTimeout'') [])
   \<and> call_tool (fake_transport (Inl (TimeoutException (lit ''ReadTimeout'') [])))
        sample_interpreter
        (Call_get_pireps (Given (Some (lit ''KORD''))) Omitted Omitted Omitted)
     = Inr (PStr (lit ''Error: Request to aviationweather.gov timed out. Try again.''))"
proof -
  have h: "fake_transport (Inl (TimeoutException (lit ''ReadTimeout'') []))
       (awc_request (endpoint_of (Call_get_pireps (Given (Some (lit ''KORD''))) Omitted Omitted Omitted))
          (params_of (Call_get_pireps (Given (Some (lit ''KORD''))) Omitted Omitted Omitted)))
     = Inl (TimeoutException (lit ''ReadTimeout'') [])"
    by (simp add: fake_transport_def)
  from timeout_literal [of "fake_transport (Inl (TimeoutException (lit ''ReadTimeout'') []))"
      "Call_get_pireps (Given (Some (lit ''KORD''))) Omitted Omitted Omitted"
      "lit ''ReadTimeout''" "[]" sample_interpreter, OF h] h
  show ?thesis
    by blast
qed

text \<open>
  C5. A response whose status is outside 200..299 and is not 400 makes every tool return
  \<open>Error: API returned status <code>. \<close> followed by the first 300 characters of the
  body (204 lies inside 200..299).
\<close>

theorem status_fault:
  "net (awc_request (endpoint_of c) (params_of c)) = Inr resp \<Longrightarrow>
   \<not> (200 \<le> status_code resp \<and> status_code resp \<le> 299) \<Longrightarrow> status_code resp \<noteq> 400 \<Longrightarrow>
     call_tool net py c =
       Inr (PStr (lit ''Error: API returned status '' @ str_int (status_code resp) @ lit ''. ''
                  @ take 300 (resp_text resp)))
     \<and> length (take 300 (resp_text resp)) \<le> 300"
  by (auto simp add: call_tool_unfold except_Exception_def try_block_def awc_get_def
        raise_for_status_def)

theorem status_fault_witness:
  "fake_transport (Inr server_error_response)
       (awc_request (endpoint_of (Call_get_station_info (lit ''KTUS'') Omitted))
          (params_of (Call_get_station_info (lit ''KTUS'') Omitted)))
     = Inr server_error_response
   \<and> \<not> (200 \<le> status_code server_error_response \<and> status_code server_error_response \<le> 299)
   \<and> status_code server_error_response \<noteq> 400
   \<and> length (resp_text server_error_response) = 301
   \<and> call_tool (fake_transport (Inr server_error_response)) sample_interpreter
        (Call_get_station_info (lit ''KTUS'') Omitted)
     = Inr (PStr (lit ''Error: API returned status 503. '' @ replicate 300 120))"
proof -
  have h1: "fake_transport (Inr server_error_response)
       (awc_request (endpoint_of (Call_get_station_info (lit ''KTUS'') Omitted))
          (params_of (Call_get_station_info (lit ''KTUS'') Omitted)))
     = Inr server_error_response"
    by (simp add: fake_transport_def)
  have h2: "\<not> (200 \<le> status_code server_error_response
              \<and> status_code server_error_response \<le> 299)"
    by (simp add: server_error_response_def)
  have h3: "status_code server_error_response \<noteq> 400"
    by (simp add: server_error_response_def)
  have d: "str_int 503 = lit ''503''"
    by (simp add: str_int_def lit_def)
  from status_fault [of "fake_transport (Inr server_error_response)"
      "Call_get_station_info (lit ''KTUS'') Omitted" server_error_response
      sample_interpreter, OF h1 h2 h3] h1 h2 h3
  show ?thesis
    by (simp add: server_error_response_def d lit_def)
qed

section \<open>Decoding\<close>

text \<open>
  C6 as stated does not hold: a GeoJSON response, served as \<open>application/geo+json\<close>, has
  \<open>json\<close> in its content type and is parsed, not returned as trimmed text.
\<close>

theorem geojson_is_parsed:
  "awc_get (fake_transport (Inr geojson_response)) (lit ''metar'')
       [lit ''ids'' \<mapsto> PStr (lit ''KTUS''), lit ''format'' \<mapsto> PStr (lit ''geojson'')]
     = Inr (PDict [(lit ''type'', PStr (lit ''FeatureCollection'')), (lit ''features'', PList [])])
   \<and> awc_get (fake_transport (Inr geojson_response)) (lit ''metar'')
       [lit ''ids'' \<mapsto> PStr (lit ''KTUS''), lit ''format'' \<mapsto> PStr (lit ''geojson'')]
     \<noteq> Inr (PStr (strip (resp_text geojson_response)))"
  by (simp add: awc_get_def fake_transport_def geojson_response_def raise_for_status_def
        headers_get_def lit_def)

text \<open>
  C6, amended. On a 2xx response other than 204, what \<open>_awc_get\<close> returns is fixed by the
  response alone: when the content-type header contains \<open>json\<close> (as \<open>application/json\<close>
  and \<open>application/geo+json\<close> do) it is the outcome of \<open>resp.json()\<close>, otherwise it is the
  trimmed body text. Two calls with different parameters that get the same response
  return the same value.
\<close>

theorem decode_by_content_type:
  "net (awc_request endpoint params) = Inr resp \<Longrightarrow>
   net (awc_request endpoint params') = Inr resp \<Longrightarrow>
   200 \<le> status_code resp \<Longrightarrow> status_code resp \<le> 299 \<Longrightarrow> status_code resp \<noteq> 204 \<Longrightarrow>
     awc_get net endpoint params =
       (if py_in (lit ''json'') (headers_get (headers resp) (lit ''content-type'') [])
        then resp_json resp
        else Inr (PStr (strip (resp_text resp))))
     \<and> awc_get net endpoint params' = awc_get net endpoint params"
  by (simp add: awc_get_def raise_for_status_def)

theorem decode_by_content_type_witness:
  "fake_transport (Inr raw_text_response)
       (awc_request (lit ''metar'')
          [lit ''ids'' \<mapsto> PStr (lit ''KTUS''), lit ''format'' \<mapsto> PStr (lit ''json'')])
     = Inr raw_text_response
   \<and> fake_transport (Inr raw_text_response)
       (awc_request (lit ''metar'')
          [lit ''ids'' \<mapsto> PStr (lit ''KTUS''), lit ''format'' \<mapsto> PStr (lit ''raw'')])
     = Inr raw_text_response
   \<and> 200 \<le> status_code raw_text_response \<and> status_code raw_text_response \<le> 299
   \<and> status_code raw_text_response \<noteq> 204
   \<and> awc_get (fake_transport (Inr raw_text_response)) (lit ''metar'')
         [lit ''ids'' \<mapsto> PStr (lit ''KTUS''), lit ''format'' \<mapsto> PStr (lit ''json'')]
       = Inr (PStr (lit ''KTUS 041953Z 12008KT 10SM CLR 31/04 A3001''))"
proof -
  have h1: "fake_transport (Inr raw_text_response)
       (awc_request (lit ''metar'')
          [lit ''ids'' \<mapsto> PStr (lit ''KTUS''), lit ''format'' \<mapsto> PStr (lit ''json'')])
     = Inr raw_text_response"
    by (simp add: fake_transport_def)
  have h2: "fake_transport (Inr raw_text_response)
       (awc_request (lit ''metar'')
          [lit ''ids'' \<mapsto> PStr (lit ''KTUS''), lit ''format'' \<mapsto> PStr (lit ''raw'')])
     = Inr raw_text_response"
    by (simp add: fake_transport_def)
  have h3: "200 \<le> status_code raw_text_response"
    and h4: "status_code raw_text_response \<le> 299"
    and h5: "status_code raw_text_response \<noteq> 204"
    by (simp_all add: raw_text_response_def)
  have ct: "\<not> py_in (lit ''json'')
                (headers_get (headers raw_text_response) (lit ''content-type'') [])"
    by (simp add: raw_text_response_def headers_get_def lit_def)
  have st: "strip (resp_text raw_text_response)
              = lit ''KTUS 041953Z 12008KT 10SM CLR 31/04 A3001''"
    by (simp add: raw_text_response_def strip_def isspace_def lit_def)
  have r: "awc_get (fake_transport (Inr raw_text_response)) (lit ''metar'')
         [lit ''ids'' \<mapsto> PStr (lit ''KTUS''), lit ''format'' \<mapsto> PStr (lit ''json'')]
       = Inr (PStr (lit ''KTUS 041953Z 12008KT 10SM CLR 31/04 A3001''))"
    using decode_by_content_type [of "fake_transport (Inr raw_text_response)" "lit ''metar''"
      "[lit ''ids'' \<mapsto> PStr (lit ''KTUS''), lit ''format'' \<mapsto> PStr (lit ''json'')]"
      raw_text_response
      "[lit ''ids'' \<mapsto> PStr (lit ''KTUS''), lit ''format'' \<mapsto> PStr (lit ''raw'')]",
      OF h1 h2 h3 h4 h5] ct st
    by simp
  from h1 h2 h3 h4 h5 r show ?thesis
    by blast
qed

section \<open>Parameter assembly\<close>

lemma get_metar_params_lookup:
  "get_metar_params ids hours format (lit ''ids'') = Some (PStr ids)"
  "get_metar_params ids hours format (lit ''hours'') = map_option PFloat hours"
  "dom (get_metar_params ids hours format) \<subseteq> {lit ''ids'', lit ''format'', lit ''hours''}"
  by (cases hours; auto simp add: get_metar_params_def Let_def split: if_splits)+

lemma get_pireps_params_lookup:
  "get_pireps_params id' distance age format (lit ''id'')
     = (case id' of Some s \<Rightarrow> if s = [] then None else Some (PStr s) | None \<Rightarrow> None)"
  "get_pireps_params id' distance age format (lit ''distance'') = map_option PInt distance"
  "get_pireps_params id' distance age format (lit ''age'') = map_option PFloat age"
  "dom (get_pireps_params id' distance age format)
     \<subseteq> {lit ''format'', lit ''id'', lit ''distance'', lit ''age''}"
  by (cases id'; cases distance; cases age;
      auto simp add: get_pireps_params_def Let_def truthy_def split: if_splits)+

lemma get_airsigmet_params_lookup:
  "get_airsigmet_params format hazard (lit ''hazard'')
     = (case hazard of Some s \<Rightarrow> if s = [] then None else Some (PStr s) | None \<Rightarrow> None)"
  "dom (get_airsigmet_params format hazard) \<subseteq> {lit ''format'', lit ''hazard''}"
  by (cases hazard; auto simp add: get_airsigmet_params_def Let_def truthy_def split: if_splits)+

lemma get_taf_params_lookup:
  "get_taf_params ids format (lit ''ids'') = Some (PStr ids)"
  "dom (get_taf_params ids format) = {lit ''ids'', lit ''format''}"
  by (auto simp add: get_taf_params_def)

lemma get_station_info_params_lookup:
  "get_station_info_params ids format (lit ''ids'') = Some (PStr ids)"
  "dom (get_station_info_params ids format) = {lit ''ids'', lit ''format''}"
  by (auto simp add: get_station_info_params_def)

lemma params_of_not_None: "params_of c k \<noteq> Some PNone"
proof (cases c)
  case (Call_get_metar ids hours fmt)
  then show ?thesis
    by (cases "with_default None hours")
       (auto simp add: get_metar_params_def Let_def split: if_splits)
next
  case (Call_get_taf ids fmt)
  then show ?thesis
    by (auto simp add: get_taf_params_def split: if_splits)
next
  case (Call_get_pireps id' distance age fmt)
  then show ?thesis
    by (cases "with_default None id'"; cases "with_default (Some 200) distance";
        cases "with_default (Some (lit ''2.0'')) age")
       (auto simp add: get_pireps_params_def Let_def split: if_splits)
next
  case (Call_get_airsigmet fmt hazard)
  then show ?thesis
    by (cases "with_default None hazard")
       (auto simp add: get_airsigmet_params_def Let_def split: if_splits)
next
  case (Call_get_station_info ids fmt)
  then show ?thesis
    by (auto simp add: get_station_info_params_def split: if_splits)
qed

text \<open>
  C7. With \<open>ids="KTUS"\<close>, \<open>hours\<close> left out and \<open>format\<close> left at its default,
  \<open>get_metar\<close> and \<open>get_taf\<close> hand \<open>_awc_get\<close> the mapping
  \<open>{"ids": "KTUS", "format": "json"}\<close>, with these two keys and no other.
\<close>

theorem ktus_default_params:
  "params_of (Call_get_metar (lit ''KTUS'') Omitted Omitted)
     = [lit ''ids'' \<mapsto> PStr (lit ''KTUS''), lit ''format'' \<mapsto> PStr (lit ''json'')]
   \<and> params_of (Call_get_taf (lit ''KTUS'') Omitted)
     = [lit ''ids'' \<mapsto> PStr (lit ''KTUS''), lit ''format'' \<mapsto> PStr (lit ''json'')]
   \<and> dom (params_of (Call_get_metar (lit ''KTUS'') Omitted Omitted))
     = {lit ''ids'', lit ''format''}
   \<and> dom (params_of (Call_get_taf (lit ''KTUS'') Omitted))
     = {lit ''ids'', lit ''format''}"
  by (auto simp add: get_metar_params_def get_taf_params_def py_or_def)

text \<open>
  C8 as stated does not hold: \<open>get_pireps(id="")\<close> is given a value that is not \<open>None\<close>,
  and the mapping has no \<open>id\<close> key; the same goes for \<open>hazard=""\<close> in \<open>get_airsigmet\<close>.
\<close>

theorem empty_id_is_dropped:
  "params_of (Call_get_pireps (Given (Some [])) Omitted Omitted Omitted) (lit ''id'') = None
   \<and> params_of (Call_get_airsigmet Omitted (Given (Some []))) (lit ''hazard'') = None"
  by (simp add: get_pireps_params_lookup get_airsigmet_params_lookup)

text \<open>
  C8, amended. The required \<open>ids\<close> is always sent. \<open>hours\<close> is sent exactly when the caller
  gives a value other than \<open>None\<close>. \<open>id\<close> and \<open>hazard\<close> are sent exactly when the caller
  gives a non-empty string. \<open>distance\<close> and \<open>age\<close> are sent with the defaults 200 and 2.0
  when the caller leaves them out, with the caller's value when one is given, and not at
  all when the caller passes \<open>None\<close>. No key is ever mapped to \<open>None\<close>, and no key outside
  the declared parameters appears.
\<close>

theorem optional_params:
  "params_of (Call_get_metar ids hours fmt) (lit ''ids'') = Some (PStr ids)
   \<and> params_of (Call_get_taf ids fmt) (lit ''ids'') = Some (PStr ids)
   \<and> params_of (Call_get_station_info ids fmt) (lit ''ids'') = Some (PStr ids)
   \<and> params_of (Call_get_metar ids hours fmt) (lit ''hours'')
       = (case hours of Given (Some h) \<Rightarrow> Some (PFloat h) | _ \<Rightarrow> None)
   \<and> params_of (Call_get_pireps id' distance age fmt) (lit ''id'')
       = (case id' of Given (Some s) \<Rightarrow> if s = [] then None else Some (PStr s) | _ \<Rightarrow> None)
   \<and> params_of (Call_get_pireps id' distance age fmt) (lit ''distance'')
       = (case distance of Omitted \<Rightarrow> Some (PInt 200) | Given None \<Rightarrow> None
          | Given (Some d) \<Rightarrow> Some (PInt d))
   \<and> params_of (Call_get_pireps id' distance age fmt) (lit ''age'')
       = (case age of Omitted \<Rightarrow> Some (PFloat (lit ''2.0'')) | Given None \<Rightarrow> None
          | Given (Some a) \<Rightarrow> Some (PFloat a))
   \<and> params_of (Call_get_airsigmet fmt hazard) (lit ''hazard'')
       = (case hazard of Given (Some s) \<Rightarrow> if s = [] then None else Some (PStr s) | _ \<Rightarrow> None)
   \<and> dom (params_of (Call_get_metar ids hours fmt))
       \<subseteq> {lit ''ids'', lit ''format'', lit ''hours''}
   \<and> dom (params_of (Call_get_taf ids fmt)) = {lit ''ids'', lit ''format''}
   \<and> dom (params_of (Call_get_pireps id' distance age fmt))
       \<subseteq> {lit ''format'', lit ''id'', lit ''distance'', lit ''age''}
   \<and> dom (params_of (Call_get_airsigmet fmt hazard)) \<subseteq> {lit ''format'', lit ''hazard''}
   \<and> dom (params_of (Call_get_station_info ids fmt)) = {lit ''ids'', lit ''format''}
   \<and> params_of c k \<noteq> Some PNone"
  by (simp add: get_metar_params_lookup get_taf_params_lookup get_pireps_params_lookup
        get_airsigmet_params_lookup get_station_info_params_lookup params_of_not_None
        split: arg.splits option.splits)

text \<open>
  C9 as stated does not hold: a caller who supplies the empty string as \<open>format\<close> does not
  get it sent; \<open>json\<close> is sent in its place.
\<close>

theorem empty_format_not_forwarded:
  "params_of (Call_get_metar (lit ''KTUS'') Omitted (Given (Some []))) (lit ''format'')
     = Some (PStr (lit ''json''))
   \<and> params_of (Call_get_metar (lit ''KTUS'') Omitted (Given (Some []))) (lit ''format'')
     \<noteq> Some (PStr [])"
  using params_of_format [of "Call_get_metar (lit ''KTUS'') Omitted (Given (Some []))"]
  by (simp add: py_or_def)

text \<open>
  C9, amended. The mapping of every call has the key \<open>format\<close>. Its value is the
  caller's when the caller gives a non-empty string, and \<open>json\<close> when the caller leaves
  the argument out, passes \<open>None\<close> or passes the empty string.
\<close>

theorem format_always_present:
  "lit ''format'' \<in> dom (params_of c)
   \<and> params_of c (lit ''format'')
       = Some (PStr (case format_arg c of
                       Omitted \<Rightarrow> lit ''json''
                     | Given None \<Rightarrow> lit ''json''
                     | Given (Some s) \<Rightarrow> if s = [] then lit ''json'' else s))"
  by (simp add: params_of_format py_or_def domIff split: arg.splits option.splits)

text \<open>
  C10. A caller who passes \<open>None\<close> or the empty string as \<open>format\<close> gets \<open>json\<close> sent, in
  every tool; and no call at all sends an empty \<open>format\<close>.
\<close>

theorem falsy_format_coerced:
  "format_arg c = Given None \<or> format_arg c = Given (Some []) \<Longrightarrow>
     params_of c (lit ''format'') = Some (PStr (lit ''json''))
     \<and> params_of c (lit ''format'') \<noteq> Some (PStr [])"
  by (auto simp add: params_of_format py_or_def)

theorem falsy_format_coerced_witness:
  "(format_arg (Call_get_station_info (lit ''KTUS'') (Given (Some []))) = Given None
    \<or> format_arg (Call_get_station_info (lit ''KTUS'') (Given (Some []))) = Given (Some []))
   \<and> params_of (Call_get_station_info (lit ''KTUS'') (Given (Some []))) (lit ''format'')
     = Some (PStr (lit ''json''))"
proof -
  have h: "format_arg (Call_get_station_info (lit ''KTUS'') (Given (Some []))) = Given None
    \<or> format_arg (Call_get_station_info (lit ''KTUS'') (Given (Some []))) = Given (Some [])"
    by simp
  from falsy_format_coerced [OF h] h show ?thesis
    by blast
qed

end
